theory Spec2Isabelle
  imports Main "HOL-Library.Word" "HOL-Library.AList"
begin

section \<open>The workload controller of pkg/operator/apiserver/controller/workload\<close>

text \<open>
  A shallow embedding of \<^verbatim>\<open>workload.go\<close>: the controller's \<^verbatim>\<open>sync\<close>,
  \<^verbatim>\<open>shouldSync\<close> and \<^verbatim>\<open>updateOperatorStatus\<close>, and the function
  \<^verbatim>\<open>EnsureAtMostOnePodPerNode\<close>.

  Go values are modelled as follows.
  \<^item> \<^verbatim>\<open>int32\<close> and \<^verbatim>\<open>int64\<close> are 32 and 64 bit words, compared as signed
    numbers and printed through \<open>sint\<close>.
  \<^item> An \<^verbatim>\<open>error\<close> is an interface value that may be nil: \<open>error option\<close>, with
    \<open>None\<close> for nil. Calling \<^verbatim>\<open>Error()\<close> on nil panics.
  \<^item> A \<^verbatim>\<open>map[string]string\<close> is a reference into a memory of maps, or nil
    (\<open>None\<close>): two fields may hold the same map, and a write through one is
    seen through the other. The memory holds each map as the association list
    of its entries. Writing to the nil map panics.
  \<^item> The collaborators (operator client, kube client, delegate, pod lister) are
    a record holding what each call answers during one pass; the calls that
    the controller makes on them are collected, in order, in a list of effects.
  \<^item> A function either returns or panics: \<open>'a outcome\<close>.
\<close>

subsection \<open>Values\<close>

type_synonym int32 = "32 word"
type_synonym int64 = "64 word"

datatype error = GoError (Error: string) (IsNotFound: bool)

text \<open>What \<^verbatim>\<open>sync\<close> hands back: one of the collaborators' errors, or an aggregate.\<close>

datatype returned_error = Single error | Aggregate "error list"

datatype 'a outcome = Returned 'a | Panicked

type_synonym labels = "(string \<times> string) list"

type_synonym ref = nat

subsection \<open>Formatting\<close>

text \<open>The verbs \<^verbatim>\<open>%d\<close> and \<^verbatim>\<open>%v\<close> of \<^verbatim>\<open>fmt.Sprintf\<close> on integers: decimal, with a sign.\<close>

definition digit :: "nat \<Rightarrow> char" where
  "digit n = ''0123456789'' ! n"

function decimal :: "nat \<Rightarrow> string" where
  "decimal n = (if n < 10 then [digit n] else decimal (n div 10) @ [digit (n mod 10)])"
  by pat_completeness auto
termination
  by (relation "measure id") auto

declare decimal.simps [simp del]

definition format_int :: "int \<Rightarrow> string" where
  "format_int i = (if i < 0 then ''-'' @ decimal (nat (- i)) else decimal (nat i))"

text \<open>\<^verbatim>\<open>strings.Join\<close>.\<close>

fun Join :: "string list \<Rightarrow> string \<Rightarrow> string" where
  "Join [] sep = ''''"
| "Join [x] sep = x"
| "Join (x # y # ys) sep = x @ sep @ Join (y # ys) sep"

subsection \<open>API objects\<close>

text \<open>
  Only the fields that the code reads or writes are kept. The fields of
  \<^verbatim>\<open>ObjectMeta\<close> and of \<^verbatim>\<open>Status\<close> that the code uses are fields of the
  deployment itself; \<^verbatim>\<open>Template.Labels\<close> and \<^verbatim>\<open>Template.Spec.Affinity\<close> are
  fields of the pod template.
\<close>

record LabelSelector =
  MatchLabels :: "ref option"

record PodAffinityTerm =
  LabelSelector :: "LabelSelector option"
  TopologyKey :: string

record PodAntiAffinity =
  RequiredDuringSchedulingIgnoredDuringExecution :: "PodAffinityTerm list"

record Affinity =
  PodAntiAffinity :: "PodAntiAffinity option"

record PodTemplateSpec =
  Labels :: "ref option"
  Affinity :: "Affinity option"

record DeploymentSpec =
  Replicas :: "int32 option"
  Selector :: "LabelSelector option"
  Template :: PodTemplateSpec

record Deployment =
  Name :: string
  Generation :: int64
  Spec :: DeploymentSpec
  ObservedGeneration :: int64
  AvailableReplicas :: int32
  UpdatedReplicas :: int32

datatype ConditionStatus = ConditionTrue | ConditionFalse | ConditionUnknown

record OperatorCondition =
  Type :: string
  Status :: ConditionStatus
  Reason :: string
  Message :: string

text \<open>
  The constants of github.com/openshift/api/operator/v1 that the code names:
  the two condition types and the three management states.
\<close>

definition OperatorStatusTypeAvailable :: string where
  "OperatorStatusTypeAvailable = ''Available''"

definition OperatorStatusTypeProgressing :: string where
  "OperatorStatusTypeProgressing = ''Progressing''"

definition Managed :: string where
  "Managed = ''Managed''"

definition Unmanaged :: string where
  "Unmanaged = ''Unmanaged''"

definition Removed :: string where
  "Removed = ''Removed''"

subsection \<open>The controller and its collaborators\<close>

record Controller =
  conditionsPrefix :: string
  operatorNamespace :: string
  targetNamespace :: string
  targetOperandVersion :: string
  operandNamePrefix :: string

text \<open>
  What the collaborators answer during one pass:
  \<^verbatim>\<open>operatorClient.GetOperatorState\<close> (the management state of the spec, and
  the error), \<^verbatim>\<open>Namespaces().Delete\<close>, \<^verbatim>\<open>delegate.PreconditionFulfilled\<close>,
  \<^verbatim>\<open>delegate.Sync\<close>, \<^verbatim>\<open>deployment.PodContainersStatus\<close> and
  \<^verbatim>\<open>v1helpers.UpdateStatus\<close> (its error).
\<close>

record Collaborators =
  getOperatorState :: "string \<times> error option"
  namespaceDelete :: "error option"
  preconditionFulfilled :: "bool \<times> error option"
  delegateSync :: "Deployment option \<times> bool \<times> error option list"
  podContainersStatus :: "string list \<times> error option"
  updateStatus :: "error option"

text \<open>
  The calls that change or drive something outside the controller, as made:
  the namespace delete, the warning event (reason, format, arguments), the
  two calls of the delegate, the status update (the conditions of its
  \<^verbatim>\<open>UpdateConditionFn\<close> arguments in order, and the deployment whose generation
  \<^verbatim>\<open>updateGenerationFn\<close> records, if that argument is passed), and
  \<^verbatim>\<open>versionRecorder.SetVersion\<close>.
\<close>

datatype effect =
    DeleteNamespace string
  | Warningf string string "string list"
  | CallPreconditionFulfilled
  | CallDelegateSync
  | UpdateStatus "OperatorCondition list" "Deployment option"
  | SetVersion string string

text \<open>
  Modelled from the spec: \<^verbatim>\<open>kerrors.NewAggregate\<close> belongs to
  k8s.io/apimachinery and is not among the sources. The aggregate of a list
  of errors is nil when the list holds no error (nil entries do not count),
  otherwise it is the aggregate of the errors of the list.
\<close>

fun non_nil :: "error option list \<Rightarrow> error list" where
  "non_nil [] = []"
| "non_nil (None # es) = non_nil es"
| "non_nil (Some e # es) = e # non_nil es"

definition NewAggregate :: "error option list \<Rightarrow> returned_error option" where
  "NewAggregate errlist =
     (if non_nil errlist = [] then None else Some (Aggregate (non_nil errlist)))"

subsection \<open>shouldSync\<close>

definition shouldSync ::
  "Controller \<Rightarrow> Collaborators \<Rightarrow> string \<Rightarrow> effect list \<times> bool \<times> error option" where
  "shouldSync c env ManagementState =
     (if ManagementState = Managed then ([], True, None)
      else if ManagementState = Unmanaged then ([], False, None)
      else if ManagementState = Removed then
        (case namespaceDelete env of
           None \<Rightarrow> ([DeleteNamespace (targetNamespace c)], False, None)
         | Some err \<Rightarrow>
             if \<not> IsNotFound err
             then ([DeleteNamespace (targetNamespace c)], False, Some err)
             else ([DeleteNamespace (targetNamespace c)], False, None))
      else ([Warningf ''ManagementStateUnknown''
               ''Unrecognized operator management state %q'' [ManagementState]],
            False, None))"

subsection \<open>updateOperatorStatus\<close>

text \<open>
  The loop \<^verbatim>\<open>for _, err := range errs { message = message + err.Error() + "\n" }\<close>.
  \<open>None\<close> is the panic of \<^verbatim>\<open>err.Error()\<close> on a nil entry.
\<close>

fun append_errors :: "string \<Rightarrow> error option list \<Rightarrow> string option" where
  "append_errors message [] = Some message"
| "append_errors message (None # errs) = None"
| "append_errors message (Some err # errs) =
     append_errors (message @ Error err @ [CHR 0x0A]) errs"

definition desiredReplicas :: "Deployment \<Rightarrow> int32" where
  "desiredReplicas workload =
     (case Replicas (Spec workload) of None \<Rightarrow> 1 | Some r \<Rightarrow> r)"

text \<open>
  The call of \<^verbatim>\<open>deployment.PodContainersStatus\<close> and the replacement of its
  result by a single note when it fails.
\<close>

definition podContainersStatusOrFailure :: "Collaborators \<Rightarrow> string list" where
  "podContainersStatusOrFailure env =
     (case podContainersStatus env of
        (_, Some err) \<Rightarrow> [''failed to get pod containers details: '' @ Error err]
      | (statuses, None) \<Rightarrow> statuses)"

text \<open>
  The function itself. A nil slice and an empty slice are both the empty list,
  so the opening replacement of a nil \<^verbatim>\<open>errs\<close> by an empty slice has no
  counterpart here. The effects are those made until the function returns or
  panics; the status update is listed whether or not it reports an error.
\<close>

definition updateOperatorStatus ::
  "Controller \<Rightarrow> Collaborators \<Rightarrow> Deployment option \<Rightarrow> bool \<Rightarrow> bool \<Rightarrow> error option list
     \<Rightarrow> effect list \<times> returned_error option outcome" where
  "updateOperatorStatus c env workload operatorConfigAtHighestGeneration preconditionsReady errs =
     (let deploymentAvailableCondition =
            \<lparr>Type = conditionsPrefix c @ ''Deployment'' @ OperatorStatusTypeAvailable,
             Status = ConditionTrue, Reason = '''', Message = ''''\<rparr>;
          workloadDegradedCondition =
            \<lparr>Type = conditionsPrefix c @ ''WorkloadDegraded'',
             Status = ConditionFalse, Reason = '''', Message = ''''\<rparr>;
          deploymentDegradedCondition =
            \<lparr>Type = conditionsPrefix c @ ''DeploymentDegraded'',
             Status = ConditionFalse, Reason = '''', Message = ''''\<rparr>;
          deploymentProgressingCondition =
            \<lparr>Type = conditionsPrefix c @ ''Deployment'' @ OperatorStatusTypeProgressing,
             Status = ConditionFalse, Reason = '''', Message = ''''\<rparr>
      in
      if \<not> preconditionsReady then
        (case append_errors '''' errs of
           None \<Rightarrow> ([], Panicked)
         | Some joined \<Rightarrow>
             let message =
                   (if length joined = 0
                    then ''the operator didn't specify what preconditions are missing''
                    else joined);
                 deploymentDegradedCondition = deploymentDegradedCondition
                   \<lparr>Status := ConditionTrue, Reason := ''PreconditionNotFulfilled'',
                    Message := message\<rparr>;
                 deploymentAvailableCondition = deploymentAvailableCondition
                   \<lparr>Status := ConditionFalse, Reason := ''PreconditionNotFulfilled''\<rparr>;
                 deploymentProgressingCondition = deploymentProgressingCondition
                   \<lparr>Status := ConditionFalse, Reason := ''PreconditionNotFulfilled''\<rparr>;
                 write = UpdateStatus
                   [deploymentAvailableCondition, deploymentDegradedCondition,
                    deploymentProgressingCondition, workloadDegradedCondition] None
             in ([write],
                 (case updateStatus env of
                    Some updateError \<Rightarrow> Returned (Some (Single updateError))
                  | None \<Rightarrow> Returned (NewAggregate errs))))
      else
        (case (if length errs > 0
               then map_option
                      (\<lambda>message. workloadDegradedCondition
                         \<lparr>Status := ConditionTrue, Reason := ''SyncError'', Message := message\<rparr>)
                      (append_errors '''' errs)
               else Some (workloadDegradedCondition \<lparr>Status := ConditionFalse\<rparr>)) of
           None \<Rightarrow> ([], Panicked)
         | Some workloadDegradedCondition \<Rightarrow>
            (case workload of
               None \<Rightarrow>
                 let message = ''deployment/'' @ targetNamespace c @ '': could not be retrieved'';
                     deploymentAvailableCondition = deploymentAvailableCondition
                       \<lparr>Status := ConditionFalse, Reason := ''NoDeployment'', Message := message\<rparr>;
                     deploymentProgressingCondition = deploymentProgressingCondition
                       \<lparr>Status := ConditionTrue, Reason := ''NoDeployment'', Message := message\<rparr>;
                     deploymentDegradedCondition = deploymentDegradedCondition
                       \<lparr>Status := ConditionTrue, Reason := ''NoDeployment'', Message := message\<rparr>;
                     write = UpdateStatus
                       [deploymentAvailableCondition, deploymentDegradedCondition,
                        deploymentProgressingCondition, workloadDegradedCondition] None
                 in ([write],
                     (case updateStatus env of
                        Some updateError \<Rightarrow> Returned (Some (Single updateError))
                      | None \<Rightarrow> Returned (NewAggregate errs)))
             | Some workload \<Rightarrow>
                 let deploymentAvailableCondition =
                       (if AvailableReplicas workload = 0
                        then deploymentAvailableCondition
                          \<lparr>Status := ConditionFalse, Reason := ''NoPod'',
                           Message := ''no '' @ Name workload @ ''.'' @ targetNamespace c
                                      @ '' pods available on any node.''\<rparr>
                        else deploymentAvailableCondition
                          \<lparr>Status := ConditionTrue, Reason := ''AsExpected''\<rparr>);
                     workloadAtHighestGeneration =
                       (Generation workload = ObservedGeneration workload);
                     deploymentProgressingCondition =
                       (if \<not> workloadAtHighestGeneration
                        then deploymentProgressingCondition
                          \<lparr>Status := ConditionTrue, Reason := ''NewGeneration'',
                           Message := ''deployment/'' @ Name workload @ ''.'' @ targetNamespace c
                                      @ '': observed generation is ''
                                      @ format_int (sint (ObservedGeneration workload))
                                      @ '', desired generation is ''
                                      @ format_int (sint (Generation workload)) @ ''.''\<rparr>
                        else deploymentProgressingCondition
                          \<lparr>Status := ConditionFalse, Reason := ''AsExpected''\<rparr>);
                     workloadHasAllPodsAvailable =
                       word_sle (desiredReplicas workload) (AvailableReplicas workload);
                     deploymentDegradedCondition =
                       (if \<not> workloadHasAllPodsAvailable
                        then
                          let numNonAvailablePods =
                                desiredReplicas workload - AvailableReplicas workload;
                              podContainersStatus = podContainersStatusOrFailure env
                          in deploymentDegradedCondition
                            \<lparr>Status := ConditionTrue, Reason := ''UnavailablePod'',
                             Message := format_int (sint numNonAvailablePods) @ '' of ''
                                        @ format_int (sint (desiredReplicas workload))
                                        @ '' requested instances are unavailable for ''
                                        @ Name workload @ ''.'' @ targetNamespace c
                                        @ '' ('' @ Join podContainersStatus '', '' @ '')''\<rparr>
                        else deploymentDegradedCondition
                          \<lparr>Status := ConditionFalse, Reason := ''AsExpected''\<rparr>);
                     workloadHasAllPodsUpdated =
                       (UpdatedReplicas workload = desiredReplicas workload);
                     version =
                       (if workloadAtHighestGeneration \<and> workloadHasAllPodsAvailable
                           \<and> workloadHasAllPodsUpdated \<and> operatorConfigAtHighestGeneration
                        then [SetVersion (operandNamePrefix c @ ''-'' @ Name workload)
                                (targetOperandVersion c)]
                        else []);
                     write = UpdateStatus
                       [deploymentAvailableCondition, deploymentDegradedCondition,
                        deploymentProgressingCondition, workloadDegradedCondition] (Some workload)
                 in (version @ [write],
                     (case updateStatus env of
                        Some updateError \<Rightarrow> Returned (Some (Single updateError))
                      | None \<Rightarrow>
                          Returned (if length errs > 0 then NewAggregate errs else None))))))"

subsection \<open>sync\<close>

definition sync :: "Controller \<Rightarrow> Collaborators \<Rightarrow> effect list \<times> returned_error option outcome" where
  "sync c env =
     (case getOperatorState env of
        (_, Some err) \<Rightarrow> ([], Returned (Some (Single err)))
      | (ManagementState, None) \<Rightarrow>
          (case shouldSync c env ManagementState of
             (deleted, run, err) \<Rightarrow>
               if \<not> run then (deleted, Returned (map_option Single err))
               else
                 (case preconditionFulfilled env of
                    (fulfilled, err) \<Rightarrow>
                      if \<not> fulfilled \<or> err \<noteq> None then
                        (case updateOperatorStatus c env None False False [err] of
                           (written, res) \<Rightarrow>
                             (deleted @ [CallPreconditionFulfilled] @ written, res))
                      else
                        (case delegateSync env of
                           (workload, operatorConfigAtHighestGeneration, errs) \<Rightarrow>
                             (case updateOperatorStatus c env workload
                                     operatorConfigAtHighestGeneration True errs of
                                (written, res) \<Rightarrow>
                                  (deleted @ [CallPreconditionFulfilled, CallDelegateSync]
                                     @ written, res))))))"

subsection \<open>EnsureAtMostOnePodPerNode\<close>

text \<open>
  The maps in memory: what each reference holds, and the next reference that a
  new map gets. The references held by a spec are below \<open>next_ref\<close>.
\<close>

record heap =
  maps :: "ref \<Rightarrow> labels"
  next_ref :: ref

text \<open>The entries of a map that may be nil, and \<^verbatim>\<open>len\<close>: the nil map has none.\<close>

definition entries :: "heap \<Rightarrow> ref option \<Rightarrow> labels" where
  "entries h m = (case m of None \<Rightarrow> [] | Some r \<Rightarrow> maps h r)"

definition len :: "heap \<Rightarrow> ref option \<Rightarrow> nat" where
  "len h m = length (entries h m)"

text \<open>The assignment \<^verbatim>\<open>m[key] = val\<close> to a map that is not nil.\<close>

definition assign :: "heap \<Rightarrow> ref \<Rightarrow> string \<Rightarrow> string \<Rightarrow> heap" where
  "assign h r key val = h\<lparr>maps := (maps h)(r := AList.update key val (maps h r))\<rparr>"

text \<open>A map literal: a new map with the given entries.\<close>

definition new_map :: "heap \<Rightarrow> labels \<Rightarrow> heap \<times> ref" where
  "new_map h es =
     (h\<lparr>maps := (maps h)(next_ref h := es), next_ref := Suc (next_ref h)\<rparr>, next_ref h)"

text \<open>
  The loop \<^verbatim>\<open>for key, value := range spec.Selector.MatchLabels\<close> over the entries
  of the selector, each assigned into the map under construction.
\<close>

fun assign_all :: "labels \<Rightarrow> ref \<Rightarrow> heap \<Rightarrow> heap" where
  "assign_all [] antiAffinityMatchLabels h = h"
| "assign_all ((key, val) # rest) antiAffinityMatchLabels h =
     assign_all rest antiAffinityMatchLabels (assign h antiAffinityMatchLabels key val)"

text \<open>
  The function mutates the spec behind its pointer argument and the map behind
  \<^verbatim>\<open>spec.Template.Labels\<close>: the model returns the memory and the spec as the call
  leaves them, together with the returned error or the panic.
\<close>

definition EnsureAtMostOnePodPerNode ::
  "heap \<Rightarrow> DeploymentSpec \<Rightarrow> string \<Rightarrow> heap \<times> DeploymentSpec \<times> error option outcome" where
  "EnsureAtMostOnePodPerNode h spec component =
     (if length component = 0
      then (h, spec, Returned (Some (GoError ''please specify the component name'' False)))
      else
        let antiAffinityKey = component @ ''-anti-affinity'';
            antiAffinityValue = ''true''
        in
        (case Labels (Template spec) of
           None \<Rightarrow> (h, spec, Panicked)
         | Some templateLabels \<Rightarrow>
             let h = assign h templateLabels antiAffinityKey antiAffinityValue
             in
             (case Selector spec of
                None \<Rightarrow>
                  (h, spec, Returned (Some (GoError ''deployment is missing spec.selector'' False)))
              | Some selector \<Rightarrow>
                  if len h (MatchLabels selector) = 0
                  then (h, spec, Returned (Some
                          (GoError ''deployment is missing spec.selector.matchLabels'' False)))
                  else
                    (case new_map h [(antiAffinityKey, antiAffinityValue)] of
                       (h, antiAffinityMatchLabels) \<Rightarrow>
                         let h = assign_all (entries h (MatchLabels selector))
                                   antiAffinityMatchLabels h
                         in
                         (h,
                          spec
                            \<lparr>Template := (Template spec)
                               \<lparr>Affinity := Some
                                  \<lparr>PodAntiAffinity = Some
                                     \<lparr>RequiredDuringSchedulingIgnoredDuringExecution =
                                        [\<lparr>LabelSelector = Some
                                             \<lparr>MatchLabels = Some antiAffinityMatchLabels\<rparr>,
                                           TopologyKey = ''kubernetes.io/hostname''\<rparr>]\<rparr>\<rparr>\<rparr>\<rparr>,
                          Returned None)))))"

subsection \<open>Reading the effects of a pass\<close>

text \<open>The status updates of a pass: the conditions and the generation argument of each.\<close>

fun status_updates :: "effect list \<Rightarrow> (OperatorCondition list \<times> Deployment option) list" where
  "status_updates [] = []"
| "status_updates (UpdateStatus conditions generation # es) =
     (conditions, generation) # status_updates es"
| "status_updates (e # es) = status_updates es"

text \<open>The conditions of a given type among all conditions written during a pass.\<close>

definition written_condition :: "string \<Rightarrow> effect list \<Rightarrow> OperatorCondition list" where
  "written_condition ty es =
     filter (\<lambda>cnd. Type cnd = ty) (concat (map fst (status_updates es)))"

text \<open>The operand versions recorded during a pass.\<close>

fun versions_set :: "effect list \<Rightarrow> (string \<times> string) list" where
  "versions_set [] = []"
| "versions_set (SetVersion operand version # es) = (operand, version) # versions_set es"
| "versions_set (e # es) = versions_set es"

subsection \<open>Example values\<close>

definition example_controller :: Controller where
  "example_controller =
     \<lparr>conditionsPrefix = ''APIServer'', operatorNamespace = ''operator'',
      targetNamespace = ''target'', targetOperandVersion = ''4.6.0'',
      operandNamePrefix = ''operand''\<rparr>"

definition example_collaborators :: Collaborators where
  "example_collaborators =
     \<lparr>getOperatorState = (''Managed'', None), namespaceDelete = None,
      preconditionFulfilled = (True, None), delegateSync = (None, False, []),
      podContainersStatus = ([''container is waiting''], None), updateStatus = None\<rparr>"

definition example_workload :: "int32 \<Rightarrow> int32 \<Rightarrow> int32 \<Rightarrow> Deployment" where
  "example_workload desired available updated =
     \<lparr>Name = ''apiserver'', Generation = 5,
      Spec = \<lparr>Replicas = Some desired, Selector = None,
              Template = \<lparr>Labels = None, Affinity = None\<rparr>\<rparr>,
      ObservedGeneration = 5, AvailableReplicas = available, UpdatedReplicas = updated\<rparr>"

definition example_workload_unset :: "int32 \<Rightarrow> int32 \<Rightarrow> Deployment" where
  "example_workload_unset available updated =
     \<lparr>Name = ''apiserver'', Generation = 5,
      Spec = \<lparr>Replicas = None, Selector = None,
              Template = \<lparr>Labels = None, Affinity = None\<rparr>\<rparr>,
      ObservedGeneration = 5, AvailableReplicas = available, UpdatedReplicas = updated\<rparr>"

definition example_spec :: "ref option \<Rightarrow> LabelSelector option \<Rightarrow> DeploymentSpec" where
  "example_spec templateLabels selector =
     \<lparr>Replicas = None, Selector = selector,
      Template = \<lparr>Labels = templateLabels, Affinity = None\<rparr>\<rparr>"

text \<open>A memory of two maps, at the references 0 and 1.\<close>

definition example_heap :: "labels \<Rightarrow> labels \<Rightarrow> heap" where
  "example_heap first second = \<lparr>maps = (\<lambda>r. [])(0 := first, 1 := second), next_ref = 2\<rparr>"

section \<open>Properties\<close>

subsection \<open>The message loop\<close>

lemma append_errors_without_nil:
  "None \<notin> set errs \<Longrightarrow>
     append_errors message errs =
       Some (message @ concat (map (\<lambda>err. Error err @ [CHR 0x0A]) (non_nil errs)))"
proof (induction errs arbitrary: message)
  case Nil
  then show ?case by simp
next
  case (Cons e errs)
  then show ?case by (cases e) simp_all
qed

subsection \<open>An unfulfilled precondition without an error\<close>

text \<open>
  Claim C1. When the delegate reports the precondition unfulfilled and gives no
  error, the pass is meant to write the precondition-failure status and to
  return nil. In the code, \<^verbatim>\<open>sync\<close> passes the one-element list \<^verbatim>\<open>[]error{err}\<close>
  with a nil \<^verbatim>\<open>err\<close>, and the message loop of \<^verbatim>\<open>updateOperatorStatus\<close> calls
  \<^verbatim>\<open>err.Error()\<close> on it: the pass panics after asking the delegate, before any
  status update, and returns nothing.
\<close>

theorem sync_unfulfilled_without_error_panics:
  assumes "getOperatorState env = (Managed, None)"
    and "preconditionFulfilled env = (False, None)"
  shows "sync c env = ([CallPreconditionFulfilled], Panicked)"
  using assms by (simp add: sync_def shouldSync_def updateOperatorStatus_def)

theorem sync_unfulfilled_without_error_panics_witness:
  "getOperatorState (example_collaborators\<lparr>preconditionFulfilled := (False, None)\<rparr>)
     = (Managed, None)
   \<and> preconditionFulfilled (example_collaborators\<lparr>preconditionFulfilled := (False, None)\<rparr>)
     = (False, None)
   \<and> sync example_controller (example_collaborators\<lparr>preconditionFulfilled := (False, None)\<rparr>)
     = ([CallPreconditionFulfilled], Panicked)"
  using sync_unfulfilled_without_error_panics
    [of "example_collaborators\<lparr>preconditionFulfilled := (False, None)\<rparr>" example_controller]
  by (simp add: example_collaborators_def Managed_def)

text \<open>
  The function called with no error at all does what the claim describes: its
  fallback message is there for that case, which \<^verbatim>\<open>sync\<close> never produces.
\<close>

lemma precondition_failure_without_errors:
  assumes "updateStatus env = None"
  shows "updateOperatorStatus c env None False False [] =
    ([UpdateStatus
        [\<lparr>Type = conditionsPrefix c @ ''DeploymentAvailable'', Status = ConditionFalse,
          Reason = ''PreconditionNotFulfilled'', Message = ''''\<rparr>,
         \<lparr>Type = conditionsPrefix c @ ''DeploymentDegraded'', Status = ConditionTrue,
          Reason = ''PreconditionNotFulfilled'',
          Message = ''the operator didn't specify what preconditions are missing''\<rparr>,
         \<lparr>Type = conditionsPrefix c @ ''DeploymentProgressing'', Status = ConditionFalse,
          Reason = ''PreconditionNotFulfilled'', Message = ''''\<rparr>,
         \<lparr>Type = conditionsPrefix c @ ''WorkloadDegraded'', Status = ConditionFalse,
          Reason = '''', Message = ''''\<rparr>] None],
     Returned None)"
  using assms
  by (simp add: updateOperatorStatus_def Let_def NewAggregate_def
      OperatorStatusTypeAvailable_def OperatorStatusTypeProgressing_def)

subsection \<open>The version gate\<close>

lemma version_gate_effects:
  assumes "None \<notin> set errs"
  shows "versions_set (fst (updateOperatorStatus c env (Some w) cfg True errs)) =
    (if Generation w = ObservedGeneration w
        \<and> sint (desiredReplicas w) \<le> sint (AvailableReplicas w)
        \<and> UpdatedReplicas w = desiredReplicas w
        \<and> cfg
     then [(operandNamePrefix c @ ''-'' @ Name w, targetOperandVersion c)]
     else [])"
  using append_errors_without_nil [OF assms, of "''''"]
  by (simp add: updateOperatorStatus_def Let_def word_sle_eq split: option.splits)

text \<open>
  Claim C2, as stated, speaks of every present workload. When the error list of
  the delegate holds a nil entry, the message loop panics before the gate is
  reached: the four sub-conditions hold and no version is recorded.
\<close>

theorem version_gate_nil_error:
  "Generation (example_workload 3 3 3) = ObservedGeneration (example_workload 3 3 3)
   \<and> sint (desiredReplicas (example_workload 3 3 3))
       \<le> sint (AvailableReplicas (example_workload 3 3 3))
   \<and> UpdatedReplicas (example_workload 3 3 3) = desiredReplicas (example_workload 3 3 3)
   \<and> updateOperatorStatus example_controller example_collaborators
        (Some (example_workload 3 3 3)) True True [None] = ([], Panicked)
   \<and> versions_set (fst (updateOperatorStatus example_controller example_collaborators
        (Some (example_workload 3 3 3)) True True [None])) = []"
  by (simp add: updateOperatorStatus_def example_workload_def desiredReplicas_def)

text \<open>
  Claim C2, amended. For a present workload, in a pass whose preconditions are
  ready and whose error list holds no nil entry, \<^verbatim>\<open>SetVersion\<close> is called (once,
  for the operand \<^verbatim>\<open>operandNamePrefix-name\<close>, with the target version) if and only
  if the generation equals the observed generation, the available replicas
  reach the desired count, the updated replicas equal the desired count and the
  operator configuration is at its highest generation. Otherwise no version is
  recorded. The desired count is \<^verbatim>\<open>Spec.Replicas\<close>, or 1 when that is unset.
\<close>

theorem version_gate:
  assumes "None \<notin> set errs"
    and "desired = (case Replicas (Spec w) of None \<Rightarrow> 1 | Some replicas \<Rightarrow> replicas)"
  shows "versions_set (fst (updateOperatorStatus c env (Some w) cfg True errs)) =
    (if Generation w = ObservedGeneration w
        \<and> sint desired \<le> sint (AvailableReplicas w)
        \<and> UpdatedReplicas w = desired
        \<and> cfg
     then [(operandNamePrefix c @ ''-'' @ Name w, targetOperandVersion c)]
     else [])"
proof -
  have desired: "desired = desiredReplicas w"
    by (simp add: assms(2) desiredReplicas_def)
  show ?thesis
    unfolding desired by (rule version_gate_effects [OF assms(1)])
qed

theorem version_gate_witness:
  "None \<notin> set ([] :: error option list)
   \<and> (3 :: int32) = (case Replicas (Spec (example_workload 3 3 3)) of
                       None \<Rightarrow> 1 | Some replicas \<Rightarrow> replicas)
   \<and> versions_set (fst (updateOperatorStatus example_controller example_collaborators
        (Some (example_workload 3 3 3)) True True []))
     = [(''operand-apiserver'', ''4.6.0'')]
   \<and> versions_set (fst (updateOperatorStatus example_controller example_collaborators
        (Some (example_workload 3 3 3)) False True []))
     = []
   \<and> (1 :: int32) = (case Replicas (Spec (example_workload_unset 1 1)) of
                       None \<Rightarrow> 1 | Some replicas \<Rightarrow> replicas)
   \<and> versions_set (fst (updateOperatorStatus example_controller example_collaborators
        (Some (example_workload_unset 1 1)) True True []))
     = [(''operand-apiserver'', ''4.6.0'')]"
  using version_gate [where errs = "[]" and c = example_controller
      and env = example_collaborators and w = "example_workload 3 3 3" and cfg = True
      and desired = 3]
    version_gate [where errs = "[]" and c = example_controller
      and env = example_collaborators and w = "example_workload 3 3 3" and cfg = False
      and desired = 3]
    version_gate [where errs = "[]" and c = example_controller
      and env = example_collaborators and w = "example_workload_unset 1 1" and cfg = True
      and desired = 1]
  by (simp add: example_controller_def example_workload_def example_workload_unset_def)

subsection \<open>The status update of a pass with a present workload\<close>

lemma shortfall_no_wrap:
  fixes desired available :: int32
  assumes "0 \<le> sint available" and "sint available < sint desired"
  shows "sint (desired - available) = sint desired - sint available"
proof -
  have "sint desired < 2 ^ 31"
    using sint_lt [of desired] by simp
  moreover have "- (2 ^ 31) \<le> sint desired"
    using sint_ge [of desired] by simp
  ultimately have "- (2 ^ 31) \<le> sint desired - sint available"
    and "sint desired - sint available < 2 ^ 31"
    using assms by simp_all
  then have "signed_take_bit 31 (sint desired - sint available) = sint desired - sint available"
    by (rule signed_take_bit_int_eq_self)
  then show ?thesis
    by (simp add: sint_word_ariths)
qed

lemma status_updates_append:
  "status_updates (es @ fs) = status_updates es @ status_updates fs"
  by (induction es rule: status_updates.induct) simp_all

lemma written_condition_single_update:
  assumes "status_updates version = []"
  shows "written_condition ty (version @ [UpdateStatus conditions generation]) =
         filter (\<lambda>cnd. Type cnd = ty) conditions"
  using assms by (simp add: written_condition_def status_updates_append)

lemma present_effects:
  assumes "None \<notin> set errs"
  shows "\<exists>version available degraded progressing workloadDegraded.
     fst (updateOperatorStatus c env (Some w) cfg True errs) =
       version @ [UpdateStatus [available, degraded, progressing, workloadDegraded] (Some w)]
     \<and> status_updates version = []
     \<and> Type available = conditionsPrefix c @ ''DeploymentAvailable''
     \<and> Type workloadDegraded = conditionsPrefix c @ ''WorkloadDegraded''
     \<and> progressing =
         (if Generation w \<noteq> ObservedGeneration w
          then \<lparr>Type = conditionsPrefix c @ ''DeploymentProgressing'', Status = ConditionTrue,
                 Reason = ''NewGeneration'',
                 Message = ''deployment/'' @ Name w @ ''.'' @ targetNamespace c
                   @ '': observed generation is '' @ format_int (sint (ObservedGeneration w))
                   @ '', desired generation is '' @ format_int (sint (Generation w)) @ ''.''\<rparr>
          else \<lparr>Type = conditionsPrefix c @ ''DeploymentProgressing'', Status = ConditionFalse,
                 Reason = ''AsExpected'', Message = ''''\<rparr>)
     \<and> degraded =
         (if sint (AvailableReplicas w) < sint (desiredReplicas w)
          then \<lparr>Type = conditionsPrefix c @ ''DeploymentDegraded'', Status = ConditionTrue,
                 Reason = ''UnavailablePod'',
                 Message = format_int (sint (desiredReplicas w - AvailableReplicas w))
                   @ '' of '' @ format_int (sint (desiredReplicas w))
                   @ '' requested instances are unavailable for ''
                   @ Name w @ ''.'' @ targetNamespace c @ '' (''
                   @ Join (podContainersStatusOrFailure env) '', '' @ '')''\<rparr>
          else \<lparr>Type = conditionsPrefix c @ ''DeploymentDegraded'', Status = ConditionFalse,
                 Reason = ''AsExpected'', Message = ''''\<rparr>)"
  using append_errors_without_nil [OF assms, of "''''"]
  by (simp add: updateOperatorStatus_def Let_def word_sle_eq not_le
      OperatorStatusTypeAvailable_def OperatorStatusTypeProgressing_def)

lemma filter_degraded:
  assumes "Type a = p @ ''DeploymentAvailable''"
    and "Type d = p @ ''DeploymentDegraded''"
    and "Type pr = p @ ''DeploymentProgressing''"
    and "Type wd = p @ ''WorkloadDegraded''"
  shows "filter (\<lambda>cnd. Type cnd = p @ ''DeploymentDegraded'') [a, d, pr, wd] = [d]"
  using assms by simp

lemma filter_progressing:
  assumes "Type a = p @ ''DeploymentAvailable''"
    and "Type d = p @ ''DeploymentDegraded''"
    and "Type pr = p @ ''DeploymentProgressing''"
    and "Type wd = p @ ''WorkloadDegraded''"
  shows "filter (\<lambda>cnd. Type cnd = p @ ''DeploymentProgressing'') [a, d, pr, wd] = [pr]"
  using assms by simp

subsection \<open>The degraded condition of the deployment\<close>

lemma degraded_condition_written:
  assumes "None \<notin> set errs"
  shows "(sint (desiredReplicas w) \<le> sint (AvailableReplicas w) \<longrightarrow>
            written_condition (conditionsPrefix c @ ''DeploymentDegraded'')
              (fst (updateOperatorStatus c env (Some w) cfg True errs)) =
            [\<lparr>Type = conditionsPrefix c @ ''DeploymentDegraded'', Status = ConditionFalse,
              Reason = ''AsExpected'', Message = ''''\<rparr>])
       \<and> (sint (AvailableReplicas w) < sint (desiredReplicas w) \<longrightarrow>
            (\<exists>message.
               written_condition (conditionsPrefix c @ ''DeploymentDegraded'')
                 (fst (updateOperatorStatus c env (Some w) cfg True errs)) =
               [\<lparr>Type = conditionsPrefix c @ ''DeploymentDegraded'', Status = ConditionTrue,
                 Reason = ''UnavailablePod'', Message = message\<rparr>]))
       \<and> (0 \<le> sint (AvailableReplicas w)
            \<and> sint (AvailableReplicas w) < sint (desiredReplicas w) \<longrightarrow>
            written_condition (conditionsPrefix c @ ''DeploymentDegraded'')
              (fst (updateOperatorStatus c env (Some w) cfg True errs)) =
            [\<lparr>Type = conditionsPrefix c @ ''DeploymentDegraded'', Status = ConditionTrue,
              Reason = ''UnavailablePod'',
              Message = format_int (sint (desiredReplicas w) - sint (AvailableReplicas w))
                @ '' of '' @ format_int (sint (desiredReplicas w))
                @ '' requested instances are unavailable for ''
                @ Name w @ ''.'' @ targetNamespace c @ '' (''
                @ Join (podContainersStatusOrFailure env) '', '' @ '')''\<rparr>])"
proof -
  obtain version available degraded progressing workloadDegraded
    where effects: "fst (updateOperatorStatus c env (Some w) cfg True errs) =
        version @ [UpdateStatus [available, degraded, progressing, workloadDegraded] (Some w)]"
      and version: "status_updates version = []"
      and types: "Type available = conditionsPrefix c @ ''DeploymentAvailable''"
        "Type workloadDegraded = conditionsPrefix c @ ''WorkloadDegraded''"
      and progressing: "Type progressing = conditionsPrefix c @ ''DeploymentProgressing''"
      and degraded: "degraded =
         (if sint (AvailableReplicas w) < sint (desiredReplicas w)
          then \<lparr>Type = conditionsPrefix c @ ''DeploymentDegraded'', Status = ConditionTrue,
                 Reason = ''UnavailablePod'',
                 Message = format_int (sint (desiredReplicas w - AvailableReplicas w))
                   @ '' of '' @ format_int (sint (desiredReplicas w))
                   @ '' requested instances are unavailable for ''
                   @ Name w @ ''.'' @ targetNamespace c @ '' (''
                   @ Join (podContainersStatusOrFailure env) '', '' @ '')''\<rparr>
          else \<lparr>Type = conditionsPrefix c @ ''DeploymentDegraded'', Status = ConditionFalse,
                 Reason = ''AsExpected'', Message = ''''\<rparr>)"
    using present_effects [OF assms, of c env w cfg] by (auto split: if_splits)
  have "Type degraded = conditionsPrefix c @ ''DeploymentDegraded''"
    by (simp add: degraded)
  then have written: "written_condition (conditionsPrefix c @ ''DeploymentDegraded'')
      (fst (updateOperatorStatus c env (Some w) cfg True errs)) = [degraded]"
    unfolding effects written_condition_single_update [OF version]
    using types progressing by (rule_tac filter_degraded)
  show ?thesis
    unfolding written by (simp add: degraded shortfall_no_wrap)
qed

text \<open>
  Claim C3, as stated, speaks of every present workload. When the error list of
  the delegate holds a nil entry, the message loop panics first and no degraded
  condition is written, although the available replicas reach the desired ones.
\<close>

theorem deployment_degraded_condition_nil_error:
  "sint (desiredReplicas (example_workload 3 4 3))
     \<le> sint (AvailableReplicas (example_workload 3 4 3))
   \<and> updateOperatorStatus example_controller example_collaborators
        (Some (example_workload 3 4 3)) True True [None] = ([], Panicked)
   \<and> written_condition ''APIServerDeploymentDegraded''
        (fst (updateOperatorStatus example_controller example_collaborators
           (Some (example_workload 3 4 3)) True True [None])) = []"
  by (simp add: updateOperatorStatus_def example_workload_def desiredReplicas_def
      written_condition_def)

text \<open>
  Claim C3, amended. For a present workload, in a pass whose preconditions are
  ready and whose error list holds no nil entry, exactly one condition of type
  \<^verbatim>\<open>DeploymentDegraded\<close> (after the prefix) is written. With the desired replicas
  being \<^verbatim>\<open>Spec.Replicas\<close>, or 1 when that is unset: the condition is False with
  reason \<^verbatim>\<open>AsExpected\<close> whenever the available replicas are at least the desired
  ones, also when they exceed them; it is True with reason \<^verbatim>\<open>UnavailablePod\<close>
  whenever the available replicas are fewer than the desired ones, and then,
  the available replicas not being negative, its message starts with the
  shortfall, \<^verbatim>\<open> of \<close> and the desired count.
\<close>

theorem deployment_degraded_condition:
  assumes "None \<notin> set errs"
    and "desired = (case Replicas (Spec w) of None \<Rightarrow> 1 | Some replicas \<Rightarrow> replicas)"
  shows "(sint desired \<le> sint (AvailableReplicas w) \<longrightarrow>
            written_condition (conditionsPrefix c @ ''DeploymentDegraded'')
              (fst (updateOperatorStatus c env (Some w) cfg True errs)) =
            [\<lparr>Type = conditionsPrefix c @ ''DeploymentDegraded'', Status = ConditionFalse,
              Reason = ''AsExpected'', Message = ''''\<rparr>])
       \<and> (sint (AvailableReplicas w) < sint desired \<longrightarrow>
            (\<exists>message.
               written_condition (conditionsPrefix c @ ''DeploymentDegraded'')
                 (fst (updateOperatorStatus c env (Some w) cfg True errs)) =
               [\<lparr>Type = conditionsPrefix c @ ''DeploymentDegraded'', Status = ConditionTrue,
                 Reason = ''UnavailablePod'', Message = message\<rparr>]))
       \<and> (0 \<le> sint (AvailableReplicas w)
            \<and> sint (AvailableReplicas w) < sint desired \<longrightarrow>
            written_condition (conditionsPrefix c @ ''DeploymentDegraded'')
              (fst (updateOperatorStatus c env (Some w) cfg True errs)) =
            [\<lparr>Type = conditionsPrefix c @ ''DeploymentDegraded'', Status = ConditionTrue,
              Reason = ''UnavailablePod'',
              Message = format_int (sint desired - sint (AvailableReplicas w))
                @ '' of '' @ format_int (sint desired)
                @ '' requested instances are unavailable for ''
                @ Name w @ ''.'' @ targetNamespace c @ '' (''
                @ Join (podContainersStatusOrFailure env) '', '' @ '')''\<rparr>])"
proof -
  have desired: "desired = desiredReplicas w"
    by (simp add: assms(2) desiredReplicas_def)
  show ?thesis
    unfolding desired by (rule degraded_condition_written [OF assms(1)])
qed

theorem deployment_degraded_condition_witness:
  "None \<notin> set ([] :: error option list)
   \<and> (3 :: int32) = (case Replicas (Spec (example_workload 3 4 3)) of
                       None \<Rightarrow> 1 | Some replicas \<Rightarrow> replicas)
   \<and> sint (3 :: int32) \<le> sint (AvailableReplicas (example_workload 3 4 3))
   \<and> written_condition ''APIServerDeploymentDegraded''
        (fst (updateOperatorStatus example_controller example_collaborators
           (Some (example_workload 3 4 3)) True True [])) =
      [\<lparr>Type = ''APIServerDeploymentDegraded'', Status = ConditionFalse,
        Reason = ''AsExpected'', Message = ''''\<rparr>]
   \<and> 0 \<le> sint (AvailableReplicas (example_workload 3 1 3))
   \<and> sint (AvailableReplicas (example_workload 3 1 3)) < sint (3 :: int32)
   \<and> written_condition ''APIServerDeploymentDegraded''
        (fst (updateOperatorStatus example_controller example_collaborators
           (Some (example_workload 3 1 3)) True True [])) =
      [\<lparr>Type = ''APIServerDeploymentDegraded'', Status = ConditionTrue,
        Reason = ''UnavailablePod'',
        Message = ''2 of 3 requested instances are unavailable for apiserver.target (container is waiting)''\<rparr>]
   \<and> (1 :: int32) = (case Replicas (Spec (example_workload_unset 0 0)) of
                       None \<Rightarrow> 1 | Some replicas \<Rightarrow> replicas)
   \<and> sint (AvailableReplicas (example_workload_unset 0 0)) < sint (1 :: int32)
   \<and> written_condition ''APIServerDeploymentDegraded''
        (fst (updateOperatorStatus example_controller example_collaborators
           (Some (example_workload_unset 0 0)) True True [])) =
      [\<lparr>Type = ''APIServerDeploymentDegraded'', Status = ConditionTrue,
        Reason = ''UnavailablePod'',
        Message = ''1 of 1 requested instances are unavailable for apiserver.target (container is waiting)''\<rparr>]
   \<and> sint (1 :: int32) \<le> sint (AvailableReplicas (example_workload_unset 1 1))
   \<and> written_condition ''APIServerDeploymentDegraded''
        (fst (updateOperatorStatus example_controller example_collaborators
           (Some (example_workload_unset 1 1)) True True [])) =
      [\<lparr>Type = ''APIServerDeploymentDegraded'', Status = ConditionFalse,
        Reason = ''AsExpected'', Message = ''''\<rparr>]"
  using deployment_degraded_condition [where errs = "[]" and w = "example_workload 3 4 3"
      and c = example_controller and env = example_collaborators and cfg = True
      and desired = 3]
    deployment_degraded_condition [where errs = "[]" and w = "example_workload 3 1 3"
      and c = example_controller and env = example_collaborators and cfg = True
      and desired = 3]
    deployment_degraded_condition [where errs = "[]" and w = "example_workload_unset 0 0"
      and c = example_controller and env = example_collaborators and cfg = True
      and desired = 1]
    deployment_degraded_condition [where errs = "[]" and w = "example_workload_unset 1 1"
      and c = example_controller and env = example_collaborators and cfg = True
      and desired = 1]
  by (simp add: example_controller_def example_workload_def example_workload_unset_def
      example_collaborators_def podContainersStatusOrFailure_def format_int_def decimal.simps
      digit_def)

subsection \<open>An absent workload\<close>

text \<open>
  Claim C4, as stated, speaks of every pass with ready preconditions and an
  absent workload. When the error list of the delegate holds a nil entry, the
  message loop panics and there is no status update at all.
\<close>

theorem absent_workload_nil_error:
  "updateOperatorStatus example_controller example_collaborators None False True [None] =
     ([], Panicked)
   \<and> status_updates (fst (updateOperatorStatus example_controller example_collaborators
        None False True [None])) = []"
  by (simp add: updateOperatorStatus_def)

text \<open>
  Claim C4, amended. In a pass whose preconditions are ready, whose workload is absent
  and whose error list holds no nil entry, there is one status update, of four
  conditions: Available is False, Progressing is True and Degraded is True, all
  three with reason \<^verbatim>\<open>NoDeployment\<close> and with the same message naming the target
  namespace; the fourth is the \<^verbatim>\<open>WorkloadDegraded\<close> condition, True exactly
  when there were errors.
\<close>

theorem absent_workload_conditions:
  assumes "None \<notin> set errs"
  shows "\<exists>workloadDegraded.
     fst (updateOperatorStatus c env None cfg True errs) =
       [UpdateStatus
          [\<lparr>Type = conditionsPrefix c @ ''DeploymentAvailable'', Status = ConditionFalse,
            Reason = ''NoDeployment'',
            Message = ''deployment/'' @ targetNamespace c @ '': could not be retrieved''\<rparr>,
           \<lparr>Type = conditionsPrefix c @ ''DeploymentDegraded'', Status = ConditionTrue,
            Reason = ''NoDeployment'',
            Message = ''deployment/'' @ targetNamespace c @ '': could not be retrieved''\<rparr>,
           \<lparr>Type = conditionsPrefix c @ ''DeploymentProgressing'', Status = ConditionTrue,
            Reason = ''NoDeployment'',
            Message = ''deployment/'' @ targetNamespace c @ '': could not be retrieved''\<rparr>,
           workloadDegraded] None]
     \<and> Type workloadDegraded = conditionsPrefix c @ ''WorkloadDegraded''
     \<and> Status workloadDegraded = (if errs = [] then ConditionFalse else ConditionTrue)"
  using append_errors_without_nil [OF assms, of "''''"]
  by (simp add: updateOperatorStatus_def Let_def
      OperatorStatusTypeAvailable_def OperatorStatusTypeProgressing_def)

theorem absent_workload_conditions_witness:
  "None \<notin> set ([] :: error option list)
   \<and> fst (updateOperatorStatus example_controller example_collaborators None False True []) =
       [UpdateStatus
          [\<lparr>Type = ''APIServerDeploymentAvailable'', Status = ConditionFalse,
            Reason = ''NoDeployment'',
            Message = ''deployment/target: could not be retrieved''\<rparr>,
           \<lparr>Type = ''APIServerDeploymentDegraded'', Status = ConditionTrue,
            Reason = ''NoDeployment'',
            Message = ''deployment/target: could not be retrieved''\<rparr>,
           \<lparr>Type = ''APIServerDeploymentProgressing'', Status = ConditionTrue,
            Reason = ''NoDeployment'',
            Message = ''deployment/target: could not be retrieved''\<rparr>,
           \<lparr>Type = ''APIServerWorkloadDegraded'', Status = ConditionFalse,
            Reason = '''', Message = ''''\<rparr>] None]"
  using absent_workload_conditions [where errs = "[]" and c = example_controller
      and env = example_collaborators and cfg = False]
  by (simp add: example_controller_def updateOperatorStatus_def Let_def
      OperatorStatusTypeAvailable_def OperatorStatusTypeProgressing_def)

subsection \<open>The progressing condition\<close>

text \<open>
  Claim C5, as stated, speaks of every present workload. When the error list of
  the delegate holds a nil entry, the message loop panics first and no
  progressing condition is written, neither True nor False.
\<close>

theorem progressing_condition_nil_error:
  "Generation (example_workload 3 3 3) = ObservedGeneration (example_workload 3 3 3)
   \<and> updateOperatorStatus example_controller example_collaborators
        (Some (example_workload 3 3 3)) True True [None] = ([], Panicked)
   \<and> written_condition ''APIServerDeploymentProgressing''
        (fst (updateOperatorStatus example_controller example_collaborators
           (Some (example_workload 3 3 3)) True True [None])) = []"
  by (simp add: updateOperatorStatus_def example_workload_def written_condition_def)

text \<open>
  Claim C5, amended. For a present workload, in a pass whose preconditions are ready and
  whose error list holds no nil entry, exactly one condition of type
  \<^verbatim>\<open>DeploymentProgressing\<close> (after the prefix) is written. It is True with reason
  \<^verbatim>\<open>NewGeneration\<close> and a message giving the observed and the desired generation
  if the generation differs from the observed generation, and False with
  reason \<^verbatim>\<open>AsExpected\<close> otherwise.
\<close>

theorem progressing_condition:
  assumes "None \<notin> set errs"
  shows "written_condition (conditionsPrefix c @ ''DeploymentProgressing'')
           (fst (updateOperatorStatus c env (Some w) cfg True errs)) =
         (if Generation w \<noteq> ObservedGeneration w
          then [\<lparr>Type = conditionsPrefix c @ ''DeploymentProgressing'', Status = ConditionTrue,
                 Reason = ''NewGeneration'',
                 Message = ''deployment/'' @ Name w @ ''.'' @ targetNamespace c
                   @ '': observed generation is '' @ format_int (sint (ObservedGeneration w))
                   @ '', desired generation is '' @ format_int (sint (Generation w)) @ ''.''\<rparr>]
          else [\<lparr>Type = conditionsPrefix c @ ''DeploymentProgressing'', Status = ConditionFalse,
                 Reason = ''AsExpected'', Message = ''''\<rparr>])"
proof -
  obtain version available degraded progressing workloadDegraded
    where effects: "fst (updateOperatorStatus c env (Some w) cfg True errs) =
        version @ [UpdateStatus [available, degraded, progressing, workloadDegraded] (Some w)]"
      and version: "status_updates version = []"
      and types: "Type available = conditionsPrefix c @ ''DeploymentAvailable''"
        "Type workloadDegraded = conditionsPrefix c @ ''WorkloadDegraded''"
      and degraded: "Type degraded = conditionsPrefix c @ ''DeploymentDegraded''"
      and progressing: "progressing =
         (if Generation w \<noteq> ObservedGeneration w
          then \<lparr>Type = conditionsPrefix c @ ''DeploymentProgressing'', Status = ConditionTrue,
                 Reason = ''NewGeneration'',
                 Message = ''deployment/'' @ Name w @ ''.'' @ targetNamespace c
                   @ '': observed generation is '' @ format_int (sint (ObservedGeneration w))
                   @ '', desired generation is '' @ format_int (sint (Generation w)) @ ''.''\<rparr>
          else \<lparr>Type = conditionsPrefix c @ ''DeploymentProgressing'', Status = ConditionFalse,
                 Reason = ''AsExpected'', Message = ''''\<rparr>)"
    using present_effects [OF assms, of c env w cfg] by (auto split: if_splits)
  have "Type progressing = conditionsPrefix c @ ''DeploymentProgressing''"
    by (simp add: progressing)
  with types degraded have "written_condition (conditionsPrefix c @ ''DeploymentProgressing'')
      (fst (updateOperatorStatus c env (Some w) cfg True errs)) = [progressing]"
    unfolding effects written_condition_single_update [OF version]
    by (rule_tac filter_progressing)
  then show ?thesis
    by (simp add: progressing)
qed

theorem progressing_condition_witness:
  "None \<notin> set ([] :: error option list)
   \<and> written_condition ''APIServerDeploymentProgressing''
        (fst (updateOperatorStatus example_controller example_collaborators
           (Some (example_workload 3 3 3)) True True [])) =
      [\<lparr>Type = ''APIServerDeploymentProgressing'', Status = ConditionFalse,
        Reason = ''AsExpected'', Message = ''''\<rparr>]
   \<and> written_condition ''APIServerDeploymentProgressing''
        (fst (updateOperatorStatus example_controller example_collaborators
           (Some ((example_workload 3 3 3)\<lparr>Generation := 6\<rparr>)) True True [])) =
      [\<lparr>Type = ''APIServerDeploymentProgressing'', Status = ConditionTrue,
        Reason = ''NewGeneration'',
        Message = ''deployment/apiserver.target: observed generation is 5, desired generation is 6.''\<rparr>]"
  using progressing_condition [where errs = "[]" and w = "example_workload 3 3 3"
      and c = example_controller and env = example_collaborators and cfg = True]
    progressing_condition [where errs = "[]" and w = "(example_workload 3 3 3)\<lparr>Generation := 6\<rparr>"
      and c = example_controller and env = example_collaborators and cfg = True]
  by (simp add: example_controller_def example_workload_def format_int_def decimal.simps
      digit_def)

subsection \<open>What the conditions depend on\<close>

text \<open>
  Claim C8, as stated, names the inputs of the evaluator: the workload, the
  configuration flag, the readiness of the preconditions and the error list.
  The message of the degraded condition also holds what the pod lister reports
  for the containers, so two passes that agree on the four inputs can write
  different conditions.
\<close>

theorem conditions_depend_on_pod_statuses:
  "status_updates (fst (updateOperatorStatus example_controller example_collaborators
      (Some (example_workload 3 1 3)) True True [])) \<noteq>
   status_updates (fst (updateOperatorStatus example_controller
      (example_collaborators\<lparr>podContainersStatus := ([''container is crashlooping''], None)\<rparr>)
      (Some (example_workload 3 1 3)) True True []))"
  by (simp add: updateOperatorStatus_def Let_def example_collaborators_def
      example_workload_def desiredReplicas_def podContainersStatusOrFailure_def word_sle_eq)

text \<open>
  Claim C8, amended. Two passes of the same controller with the same workload,
  flag, readiness and error list, for which \<^verbatim>\<open>deployment.PodContainersStatus\<close>
  answers the same, write the same conditions, whatever else the collaborators
  answer.
\<close>

theorem conditions_determined:
  assumes "podContainersStatus env1 = podContainersStatus env2"
  shows "status_updates (fst (updateOperatorStatus c env1 workload cfg ready errs)) =
         status_updates (fst (updateOperatorStatus c env2 workload cfg ready errs))"
  using assms
  by (simp add: updateOperatorStatus_def Let_def podContainersStatusOrFailure_def
      split: option.splits)

theorem conditions_determined_witness:
  "podContainersStatus example_collaborators =
     podContainersStatus (example_collaborators\<lparr>updateStatus := Some (GoError ''conflict'' False)\<rparr>)
   \<and> status_updates (fst (updateOperatorStatus example_controller example_collaborators
        (Some (example_workload 3 1 3)) True True [])) =
     status_updates (fst (updateOperatorStatus example_controller
        (example_collaborators\<lparr>updateStatus := Some (GoError ''conflict'' False)\<rparr>)
        (Some (example_workload 3 1 3)) True True []))"
  using conditions_determined [where ?env1.0 = example_collaborators
      and ?env2.0 = "example_collaborators\<lparr>updateStatus := Some (GoError ''conflict'' False)\<rparr>"
      and c = example_controller and workload = "Some (example_workload 3 1 3)"
      and cfg = True and ready = True and errs = "[]"]
  by simp

subsection \<open>The gate on the management state\<close>

text \<open>
  Claim C6. In a pass that reads the management state without an error: when
  the state is Removed, the only effect is one delete of the target namespace
  (no status update, no call of the delegate), and the pass returns nil when
  the delete succeeds or reports not-found, and the delete's error otherwise;
  when the state is Unmanaged, the pass has no effect and returns nil; when
  the state is none of Managed, Unmanaged and Removed, the only effect is the
  warning event \<^verbatim>\<open>ManagementStateUnknown\<close> and the pass returns nil.
\<close>

theorem management_state_gate:
  assumes "getOperatorState env = (state, None)"
  shows "(state = Removed \<longrightarrow>
            sync c env =
              ([DeleteNamespace (targetNamespace c)],
               Returned (case namespaceDelete env of
                           None \<Rightarrow> None
                         | Some err \<Rightarrow> if IsNotFound err then None else Some (Single err))))
       \<and> (state = Unmanaged \<longrightarrow> sync c env = ([], Returned None))
       \<and> (state \<noteq> Managed \<and> state \<noteq> Unmanaged \<and> state \<noteq> Removed \<longrightarrow>
            sync c env =
              ([Warningf ''ManagementStateUnknown''
                  ''Unrecognized operator management state %q'' [state]],
               Returned None))"
  using assms
  by (simp add: sync_def shouldSync_def Managed_def Unmanaged_def Removed_def
      split: option.splits)

theorem management_state_gate_witness:
  "getOperatorState (example_collaborators
      \<lparr>getOperatorState := (Removed, None),
       namespaceDelete := Some (GoError ''namespaces target not found'' True)\<rparr>) = (Removed, None)
   \<and> sync example_controller (example_collaborators
      \<lparr>getOperatorState := (Removed, None),
       namespaceDelete := Some (GoError ''namespaces target not found'' True)\<rparr>) =
      ([DeleteNamespace ''target''], Returned None)
   \<and> sync example_controller (example_collaborators
      \<lparr>getOperatorState := (Removed, None),
       namespaceDelete := Some (GoError ''forbidden'' False)\<rparr>) =
      ([DeleteNamespace ''target''], Returned (Some (Single (GoError ''forbidden'' False))))
   \<and> sync example_controller (example_collaborators
      \<lparr>getOperatorState := (Unmanaged, None)\<rparr>) = ([], Returned None)
   \<and> ''Force'' \<noteq> Managed \<and> ''Force'' \<noteq> Unmanaged \<and> ''Force'' \<noteq> Removed
   \<and> sync example_controller (example_collaborators
      \<lparr>getOperatorState := (''Force'', None)\<rparr>) =
      ([Warningf ''ManagementStateUnknown'' ''Unrecognized operator management state %q''
          [''Force'']], Returned None)"
  using management_state_gate [where state = Removed and c = example_controller
      and env = "example_collaborators
        \<lparr>getOperatorState := (Removed, None),
         namespaceDelete := Some (GoError ''namespaces target not found'' True)\<rparr>"]
    management_state_gate [where state = Removed and c = example_controller
      and env = "example_collaborators
        \<lparr>getOperatorState := (Removed, None),
         namespaceDelete := Some (GoError ''forbidden'' False)\<rparr>"]
    management_state_gate [where state = Unmanaged and c = example_controller
      and env = "example_collaborators\<lparr>getOperatorState := (Unmanaged, None)\<rparr>"]
    management_state_gate [where state = "''Force''" and c = example_controller
      and env = "example_collaborators\<lparr>getOperatorState := (''Force'', None)\<rparr>"]
  by (simp add: example_controller_def Managed_def Unmanaged_def Removed_def)

subsection \<open>The anti-affinity of EnsureAtMostOnePodPerNode\<close>

lemma maps_assign_all:
  "maps (assign_all es r h) =
     (maps h)(r := fold (\<lambda>(key, val). AList.update key val) es (maps h r))"
  by (induction es r h rule: assign_all.induct) (simp_all add: assign_def fun_eq_iff)

lemma next_ref_assign_all:
  "next_ref (assign_all es r h) = next_ref h"
  by (induction es r h rule: assign_all.induct) (simp_all add: assign_def)

lemma map_of_fold_update:
  "distinct (map fst es) \<Longrightarrow>
     map_of (fold (\<lambda>(key, val). AList.update key val) es m) = map_of m ++ map_of es"
proof (induction es arbitrary: m)
  case Nil
  then show ?case by simp
next
  case (Cons e es)
  obtain k v where e: "e = (k, v)"
    by (cases e)
  from Cons.prems have fresh: "map_of es k = None" and rest: "distinct (map fst es)"
    by (simp_all add: e map_of_eq_None_iff)
  have "map_of (fold (\<lambda>(key, val). AList.update key val) (e # es) m) =
        map_of (AList.update k v m) ++ map_of es"
    using Cons.IH [OF rest] by (simp add: e)
  also have "\<dots> = (map_of m)(k \<mapsto> v) ++ map_of es"
    by (simp only: AList.update_conv')
  also have "\<dots> = (map_of m ++ map_of es)(k \<mapsto> v)"
    using fresh by (auto simp add: map_add_def fun_eq_iff split: option.splits)
  also have "\<dots> = map_of m ++ map_of (e # es)"
    by (simp add: e)
  finally show ?case .
qed

lemma distinct_fold_update:
  "distinct (map fst m) \<Longrightarrow>
     distinct (map fst (fold (\<lambda>(key, val). AList.update key val) es m))"
  by (induction es arbitrary: m) (auto simp add: AList.distinct_update)

lemma set_fold_update:
  fixes es :: labels
  assumes "distinct (map fst es)"
  shows "set (fold (\<lambda>(key, val). AList.update key val) es [(k, v)]) =
         set es \<union> (if k \<in> fst ` set es then {} else {(k, v)})"
proof (rule set_eqI)
  fix x :: "string \<times> string"
  obtain a b where x: "x = (a, b)"
    by (cases x)
  let ?ml = "fold (\<lambda>(key, val). AList.update key val) es [(k, v)]"
  have d: "distinct (map fst ?ml)"
    by (rule distinct_fold_update) simp
  have "(a, b) \<in> set ?ml \<longleftrightarrow> (map_of [(k, v)] ++ map_of es) a = Some b"
    using d by (simp add: map_of_fold_update [OF assms] flip: map_of_eq_Some_iff)
  also have "\<dots> \<longleftrightarrow> map_of es a = Some b \<or> (map_of es a = None \<and> a = k \<and> b = v)"
    by (auto simp add: map_add_Some_iff)
  also have "\<dots> \<longleftrightarrow> (a, b) \<in> set es \<or> (a \<notin> fst ` set es \<and> a = k \<and> b = v)"
    using assms by (simp add: map_of_eq_None_iff)
  also have "\<dots> \<longleftrightarrow> (a, b) \<in> set es \<union> (if k \<in> fst ` set es then {} else {(k, v)})"
    by (cases "k \<in> fst ` set es") auto
  finally show "x \<in> set ?ml \<longleftrightarrow>
      x \<in> set es \<union> (if k \<in> fst ` set es then {} else {(k, v)})"
    by (simp only: x)
qed

lemma set_update:
  "distinct (map fst al) \<Longrightarrow>
     set (AList.update k v al) = insert (k, v) {p \<in> set al. fst p \<noteq> k}"
proof (induction al)
  case Nil
  then show ?case by simp
next
  case (Cons p al)
  then show ?case
    by (cases p) (auto simp add: rev_image_eqI)
qed

lemma key_of_update:
  "k \<in> fst ` set (AList.update k v al)"
  by (simp add: AList.dom_update)

text \<open>
  The labels of the template and the match labels of the selector may be one
  map. The label written to the template is then in the selector's map when its
  length is taken: a map that was empty at the call is accepted, and the term
  is built from it.
\<close>

lemma shared_empty_map_is_accepted:
  "maps (example_heap [] []) 0 = []
   \<and> snd (EnsureAtMostOnePodPerNode (example_heap [] [])
        (example_spec (Some 0) (Some \<lparr>MatchLabels = Some 0\<rparr>)) ''apiserver'') =
      (\<lparr>Replicas = None, Selector = Some \<lparr>MatchLabels = Some 0\<rparr>,
        Template =
          \<lparr>Labels = Some 0,
           Affinity = Some \<lparr>PodAntiAffinity = Some
             \<lparr>RequiredDuringSchedulingIgnoredDuringExecution =
                [\<lparr>LabelSelector = Some \<lparr>MatchLabels = Some 2\<rparr>,
                   TopologyKey = ''kubernetes.io/hostname''\<rparr>]\<rparr>\<rparr>\<rparr>\<rparr>,
       Returned None)
   \<and> maps (fst (EnsureAtMostOnePodPerNode (example_heap [] [])
        (example_spec (Some 0) (Some \<lparr>MatchLabels = Some 0\<rparr>)) ''apiserver'')) 0 =
      [(''apiserver-anti-affinity'', ''true'')]"
  by (simp add: example_spec_def example_heap_def EnsureAtMostOnePodPerNode_def len_def
      entries_def assign_def new_map_def Let_def)

text \<open>
  An entry that the selector has under the key of the label stays as it is when
  the selector's map is a map of its own, and is overwritten by the label when
  the selector's map is the template's.
\<close>

lemma selector_entry_under_the_key:
  "maps (fst (EnsureAtMostOnePodPerNode
      (example_heap [] [(''apiserver-anti-affinity'', ''false'')])
      (example_spec (Some 0) (Some \<lparr>MatchLabels = Some 1\<rparr>)) ''apiserver'')) 2 =
     [(''apiserver-anti-affinity'', ''false'')]
   \<and> maps (fst (EnsureAtMostOnePodPerNode
      (example_heap [] [(''apiserver-anti-affinity'', ''false'')])
      (example_spec (Some 1) (Some \<lparr>MatchLabels = Some 1\<rparr>)) ''apiserver'')) 2 =
     [(''apiserver-anti-affinity'', ''true'')]"
  by (simp add: example_spec_def example_heap_def EnsureAtMostOnePodPerNode_def len_def
      entries_def assign_def new_map_def Let_def)

text \<open>
  Claim C7, as stated, has the function return an error whenever the selector
  is nil. With a nil \<^verbatim>\<open>Template.Labels\<close> map the write of the label panics
  before the selector is looked at.
\<close>

theorem nil_selector_with_nil_labels_panics:
  "Selector (example_spec None None) = None
   \<and> snd (snd (EnsureAtMostOnePodPerNode (example_heap [] []) (example_spec None None)
        ''apiserver'')) = Panicked"
  by (simp add: example_spec_def EnsureAtMostOnePodPerNode_def)

text \<open>
  Claim C7, amended. The function returns an error when the component name is
  empty. When the labels map of the pod template is not nil, it returns an
  error when the selector is nil, when \<^verbatim>\<open>selector.matchLabels\<close> is nil, and when
  \<^verbatim>\<open>selector.matchLabels\<close> is empty and is not the map of the template's labels.
  Otherwise (the selector's map is the template's, or it is not empty) it
  returns nil and sets the affinity of the pod template to one required
  anti-affinity term on the topology key \<^verbatim>\<open>kubernetes.io/hostname\<close>, whose match
  labels are a new map. When the selector's map is a map of its own, the new
  map holds the selector's entries together with
  \<^verbatim>\<open>component-anti-affinity: "true"\<close>, unless the selector has an entry under that
  key, which is then the one kept. When the selector's map is the template's,
  the new map holds \<^verbatim>\<open>component-anti-affinity: "true"\<close> and the selector's
  entries under the other keys. (The entries of a map have distinct keys, and
  the selector's map was made before the call.)
\<close>

theorem ensure_at_most_one_pod_per_node:
  "(component = [] \<longrightarrow>
      EnsureAtMostOnePodPerNode h spec component =
        (h, spec, Returned (Some (GoError ''please specify the component name'' False))))
   \<and> (component \<noteq> [] \<and> Labels (Template spec) = Some l \<and> Selector spec = None \<longrightarrow>
        snd (snd (EnsureAtMostOnePodPerNode h spec component)) =
          Returned (Some (GoError ''deployment is missing spec.selector'' False)))
   \<and> (component \<noteq> [] \<and> Labels (Template spec) = Some l \<and> Selector spec = Some selector
        \<and> MatchLabels selector = None \<longrightarrow>
        snd (snd (EnsureAtMostOnePodPerNode h spec component)) =
          Returned (Some (GoError ''deployment is missing spec.selector.matchLabels'' False)))
   \<and> (component \<noteq> [] \<and> Labels (Template spec) = Some l \<and> Selector spec = Some selector
        \<and> MatchLabels selector = Some m \<and> m \<noteq> l \<and> maps h m = [] \<longrightarrow>
        snd (snd (EnsureAtMostOnePodPerNode h spec component)) =
          Returned (Some (GoError ''deployment is missing spec.selector.matchLabels'' False)))
   \<and> (component \<noteq> [] \<and> Labels (Template spec) = Some l \<and> Selector spec = Some selector
        \<and> MatchLabels selector = Some m \<and> (m = l \<or> maps h m \<noteq> [])
        \<and> m < next_ref h \<and> distinct (map fst (maps h m)) \<longrightarrow>
        snd (snd (EnsureAtMostOnePodPerNode h spec component)) = Returned None
        \<and> Affinity (Template (fst (snd (EnsureAtMostOnePodPerNode h spec component)))) =
            Some \<lparr>PodAntiAffinity = Some
              \<lparr>RequiredDuringSchedulingIgnoredDuringExecution =
                 [\<lparr>LabelSelector = Some \<lparr>MatchLabels = Some (next_ref h)\<rparr>,
                   TopologyKey = ''kubernetes.io/hostname''\<rparr>]\<rparr>\<rparr>
        \<and> distinct (map fst
            (maps (fst (EnsureAtMostOnePodPerNode h spec component)) (next_ref h)))
        \<and> set (maps (fst (EnsureAtMostOnePodPerNode h spec component)) (next_ref h)) =
            (if m = l
             then insert (component @ ''-anti-affinity'', ''true'')
                    {p \<in> set (maps h m). fst p \<noteq> component @ ''-anti-affinity''}
             else set (maps h m)
                  \<union> (if component @ ''-anti-affinity'' \<in> fst ` set (maps h m)
                     then {} else {(component @ ''-anti-affinity'', ''true'')})))"
proof (intro conjI impI)
  show "EnsureAtMostOnePodPerNode h spec component =
      (h, spec, Returned (Some (GoError ''please specify the component name'' False)))"
    if "component = []"
    using that by (simp add: EnsureAtMostOnePodPerNode_def)
next
  assume "component \<noteq> [] \<and> Labels (Template spec) = Some l \<and> Selector spec = None"
  then show "snd (snd (EnsureAtMostOnePodPerNode h spec component)) =
      Returned (Some (GoError ''deployment is missing spec.selector'' False))"
    by (simp add: EnsureAtMostOnePodPerNode_def Let_def)
next
  assume "component \<noteq> [] \<and> Labels (Template spec) = Some l \<and> Selector spec = Some selector
    \<and> MatchLabels selector = None"
  then show "snd (snd (EnsureAtMostOnePodPerNode h spec component)) =
      Returned (Some (GoError ''deployment is missing spec.selector.matchLabels'' False))"
    by (simp add: EnsureAtMostOnePodPerNode_def Let_def len_def entries_def)
next
  assume "component \<noteq> [] \<and> Labels (Template spec) = Some l \<and> Selector spec = Some selector
    \<and> MatchLabels selector = Some m \<and> m \<noteq> l \<and> maps h m = []"
  then show "snd (snd (EnsureAtMostOnePodPerNode h spec component)) =
      Returned (Some (GoError ''deployment is missing spec.selector.matchLabels'' False))"
    by (simp add: EnsureAtMostOnePodPerNode_def Let_def len_def entries_def assign_def)
next
  assume valid: "component \<noteq> [] \<and> Labels (Template spec) = Some l
    \<and> Selector spec = Some selector \<and> MatchLabels selector = Some m
    \<and> (m = l \<or> maps h m \<noteq> []) \<and> m < next_ref h \<and> distinct (map fst (maps h m))"
  let ?k = "component @ ''-anti-affinity''"
  let ?h = "assign h l ?k ''true''"
  have nonempty: "len ?h (MatchLabels selector) \<noteq> 0"
    using valid by (auto simp add: len_def entries_def assign_def)
  have result: "EnsureAtMostOnePodPerNode h spec component =
      (assign_all (maps ?h m) (next_ref h)
         (?h\<lparr>maps := (maps ?h)(next_ref h := [(?k, ''true'')]),
             next_ref := Suc (next_ref h)\<rparr>),
       spec\<lparr>Template := (Template spec)
         \<lparr>Affinity := Some \<lparr>PodAntiAffinity = Some
            \<lparr>RequiredDuringSchedulingIgnoredDuringExecution =
               [\<lparr>LabelSelector = Some \<lparr>MatchLabels = Some (next_ref h)\<rparr>,
                 TopologyKey = ''kubernetes.io/hostname''\<rparr>]\<rparr>\<rparr>\<rparr>\<rparr>,
       Returned None)"
    using valid nonempty
    by (simp add: EnsureAtMostOnePodPerNode_def Let_def new_map_def entries_def)
      (simp add: assign_def)
  have built: "maps (fst (EnsureAtMostOnePodPerNode h spec component)) (next_ref h) =
      fold (\<lambda>(key, val). AList.update key val) (maps ?h m) [(?k, ''true'')]"
    by (simp add: result maps_assign_all)
  have read: "maps ?h m = (if m = l then AList.update ?k ''true'' (maps h m) else maps h m)"
    by (simp add: assign_def)
  have keys: "distinct (map fst (maps ?h m))"
    using valid by (auto simp add: read AList.distinct_update)
  show "snd (snd (EnsureAtMostOnePodPerNode h spec component)) = Returned None"
    by (simp add: result)
  show "Affinity (Template (fst (snd (EnsureAtMostOnePodPerNode h spec component)))) =
      Some \<lparr>PodAntiAffinity = Some
        \<lparr>RequiredDuringSchedulingIgnoredDuringExecution =
           [\<lparr>LabelSelector = Some \<lparr>MatchLabels = Some (next_ref h)\<rparr>,
             TopologyKey = ''kubernetes.io/hostname''\<rparr>]\<rparr>\<rparr>"
    by (simp add: result)
  show "distinct (map fst
      (maps (fst (EnsureAtMostOnePodPerNode h spec component)) (next_ref h)))"
    unfolding built by (rule distinct_fold_update) simp
  show "set (maps (fst (EnsureAtMostOnePodPerNode h spec component)) (next_ref h)) =
      (if m = l
       then insert (?k, ''true'') {p \<in> set (maps h m). fst p \<noteq> ?k}
       else set (maps h m)
            \<union> (if ?k \<in> fst ` set (maps h m) then {} else {(?k, ''true'')}))"
  proof (cases "m = l")
    case True
    have shared: "maps ?h m = AList.update ?k ''true'' (maps h m)"
      unfolding read using True by simp
    have "set (fold (\<lambda>(key, val). AList.update key val) (maps ?h m) [(?k, ''true'')]) =
        set (maps ?h m) \<union> (if ?k \<in> fst ` set (maps ?h m) then {} else {(?k, ''true'')})"
      by (rule set_fold_update [OF keys])
    also have "\<dots> = set (AList.update ?k ''true'' (maps h m))"
      unfolding shared by (simp add: key_of_update)
    also have "\<dots> = insert (?k, ''true'') {p \<in> set (maps h m). fst p \<noteq> ?k}"
      using valid by (simp add: set_update)
    finally have "set (maps (fst (EnsureAtMostOnePodPerNode h spec component)) (next_ref h)) =
        insert (?k, ''true'') {p \<in> set (maps h m). fst p \<noteq> ?k}"
      unfolding built .
    with True show ?thesis
      by simp
  next
    case False
    then show ?thesis
      using valid set_fold_update [OF keys, of ?k "''true''"] by (simp add: built read)
  qed
qed

theorem ensure_at_most_one_pod_per_node_witness:
  "EnsureAtMostOnePodPerNode (example_heap [(''app'', ''apiserver'')] [(''app'', ''apiserver'')])
      (example_spec (Some 0) (Some \<lparr>MatchLabels = Some 1\<rparr>)) [] =
     (example_heap [(''app'', ''apiserver'')] [(''app'', ''apiserver'')],
      example_spec (Some 0) (Some \<lparr>MatchLabels = Some 1\<rparr>),
      Returned (Some (GoError ''please specify the component name'' False)))
   \<and> snd (snd (EnsureAtMostOnePodPerNode (example_heap [(''app'', ''apiserver'')] [])
        (example_spec (Some 0) None) ''apiserver'')) =
      Returned (Some (GoError ''deployment is missing spec.selector'' False))
   \<and> snd (snd (EnsureAtMostOnePodPerNode (example_heap [(''app'', ''apiserver'')] [])
        (example_spec (Some 0) (Some \<lparr>MatchLabels = None\<rparr>)) ''apiserver'')) =
      Returned (Some (GoError ''deployment is missing spec.selector.matchLabels'' False))
   \<and> (1 :: ref) \<noteq> 0 \<and> maps (example_heap [(''app'', ''apiserver'')] []) 1 = []
   \<and> snd (snd (EnsureAtMostOnePodPerNode (example_heap [(''app'', ''apiserver'')] [])
        (example_spec (Some 0) (Some \<lparr>MatchLabels = Some 1\<rparr>)) ''apiserver'')) =
      Returned (Some (GoError ''deployment is missing spec.selector.matchLabels'' False))
   \<and> 1 < next_ref (example_heap [(''app'', ''apiserver'')] [(''app'', ''apiserver'')])
   \<and> distinct (map fst (maps (example_heap [(''app'', ''apiserver'')] [(''app'', ''apiserver'')]) 1))
   \<and> snd (EnsureAtMostOnePodPerNode
        (example_heap [(''app'', ''apiserver'')] [(''app'', ''apiserver'')])
        (example_spec (Some 0) (Some \<lparr>MatchLabels = Some 1\<rparr>)) ''apiserver'') =
      (\<lparr>Replicas = None, Selector = Some \<lparr>MatchLabels = Some 1\<rparr>,
        Template =
          \<lparr>Labels = Some 0,
           Affinity = Some \<lparr>PodAntiAffinity = Some
             \<lparr>RequiredDuringSchedulingIgnoredDuringExecution =
                [\<lparr>LabelSelector = Some \<lparr>MatchLabels = Some 2\<rparr>,
                   TopologyKey = ''kubernetes.io/hostname''\<rparr>]\<rparr>\<rparr>\<rparr>\<rparr>,
       Returned None)
   \<and> set (maps (fst (EnsureAtMostOnePodPerNode
        (example_heap [(''app'', ''apiserver'')] [(''app'', ''apiserver'')])
        (example_spec (Some 0) (Some \<lparr>MatchLabels = Some 1\<rparr>)) ''apiserver'')) 2) =
      {(''app'', ''apiserver''), (''apiserver-anti-affinity'', ''true'')}
   \<and> snd (snd (EnsureAtMostOnePodPerNode (example_heap [] [])
        (example_spec (Some 0) (Some \<lparr>MatchLabels = Some 0\<rparr>)) ''apiserver'')) =
      Returned None
   \<and> set (maps (fst (EnsureAtMostOnePodPerNode (example_heap [] [])
        (example_spec (Some 0) (Some \<lparr>MatchLabels = Some 0\<rparr>)) ''apiserver'')) 2) =
      {(''apiserver-anti-affinity'', ''true'')}"
  using ensure_at_most_one_pod_per_node [where component = "[]"
      and h = "example_heap [(''app'', ''apiserver'')] [(''app'', ''apiserver'')]"
      and spec = "example_spec (Some 0) (Some \<lparr>MatchLabels = Some 1\<rparr>)"]
    ensure_at_most_one_pod_per_node [where component = "''apiserver''" and l = 0
      and h = "example_heap [(''app'', ''apiserver'')] []"
      and spec = "example_spec (Some 0) None"]
    ensure_at_most_one_pod_per_node [where component = "''apiserver''" and l = 0
      and selector = "\<lparr>MatchLabels = None\<rparr>"
      and h = "example_heap [(''app'', ''apiserver'')] []"
      and spec = "example_spec (Some 0) (Some \<lparr>MatchLabels = None\<rparr>)"]
    ensure_at_most_one_pod_per_node [where component = "''apiserver''" and l = 0 and m = 1
      and selector = "\<lparr>MatchLabels = Some 1\<rparr>"
      and h = "example_heap [(''app'', ''apiserver'')] []"
      and spec = "example_spec (Some 0) (Some \<lparr>MatchLabels = Some 1\<rparr>)"]
    ensure_at_most_one_pod_per_node [where component = "''apiserver''" and l = 0 and m = 1
      and selector = "\<lparr>MatchLabels = Some 1\<rparr>"
      and h = "example_heap [(''app'', ''apiserver'')] [(''app'', ''apiserver'')]"
      and spec = "example_spec (Some 0) (Some \<lparr>MatchLabels = Some 1\<rparr>)"]
    ensure_at_most_one_pod_per_node [where component = "''apiserver''" and l = 0 and m = 0
      and selector = "\<lparr>MatchLabels = Some 0\<rparr>"
      and h = "example_heap [] []"
      and spec = "example_spec (Some 0) (Some \<lparr>MatchLabels = Some 0\<rparr>)"]
  by (simp add: example_spec_def example_heap_def EnsureAtMostOnePodPerNode_def len_def
      entries_def assign_def new_map_def Let_def insert_commute)

text \<open>
  Claim C9. The label is written into \<^verbatim>\<open>spec.Template.Labels\<close> before the selector
  is validated: whenever the component name is not empty and that map is nil,
  the function panics, whatever the selector is, and leaves the memory and the
  spec as they were.
\<close>

theorem nil_template_labels_panic:
  assumes "component \<noteq> []" and "Labels (Template spec) = None"
  shows "EnsureAtMostOnePodPerNode h spec component = (h, spec, Panicked)"
  using assms by (simp add: EnsureAtMostOnePodPerNode_def)

theorem nil_template_labels_panic_witness:
  "''apiserver'' \<noteq> []
   \<and> Labels (Template (example_spec None (Some \<lparr>MatchLabels = Some 1\<rparr>))) = None
   \<and> EnsureAtMostOnePodPerNode (example_heap [] [(''app'', ''apiserver'')])
        (example_spec None (Some \<lparr>MatchLabels = Some 1\<rparr>)) ''apiserver'' =
      (example_heap [] [(''app'', ''apiserver'')],
       example_spec None (Some \<lparr>MatchLabels = Some 1\<rparr>), Panicked)"
  using nil_template_labels_panic [where component = "''apiserver''"
      and h = "example_heap [] [(''app'', ''apiserver'')]"
      and spec = "example_spec None (Some \<lparr>MatchLabels = Some 1\<rparr>)"]
  by (simp add: example_spec_def)

text \<open>
  Claim C10. Whenever a call with a component name that is not empty and a
  labels map of the pod template that is not nil returns an error, the selector
  is nil or its match labels are empty, and the call has written the label
  \<^verbatim>\<open>component-anti-affinity: "true"\<close> into the map of the template's labels and
  done nothing else: the spec, with its affinity, is as it was, and no other
  map has changed.
\<close>

theorem label_added_before_validation:
  assumes "component \<noteq> []"
    and "Labels (Template spec) = Some l"
    and "snd (snd (EnsureAtMostOnePodPerNode h spec component)) = Returned (Some err)"
  shows "EnsureAtMostOnePodPerNode h spec component =
           (assign h l (component @ ''-anti-affinity'') ''true'', spec, Returned (Some err))
         \<and> map_of (maps (fst (EnsureAtMostOnePodPerNode h spec component)) l)
             (component @ ''-anti-affinity'') = Some ''true''
         \<and> (Selector spec = None
            \<or> (\<exists>selector. Selector spec = Some selector
                 \<and> len (fst (EnsureAtMostOnePodPerNode h spec component))
                      (MatchLabels selector) = 0))"
  using assms
  by (auto simp add: EnsureAtMostOnePodPerNode_def Let_def new_map_def assign_def
      AList.update_conv' split: option.splits if_splits prod.splits)

theorem label_added_before_validation_witness:
  "''apiserver'' \<noteq> []
   \<and> Labels (Template (example_spec (Some 0) None)) = Some 0
   \<and> EnsureAtMostOnePodPerNode (example_heap [(''app'', ''apiserver'')] [])
        (example_spec (Some 0) None) ''apiserver'' =
      (assign (example_heap [(''app'', ''apiserver'')] []) 0 ''apiserver-anti-affinity'' ''true'',
       example_spec (Some 0) None,
       Returned (Some (GoError ''deployment is missing spec.selector'' False)))
   \<and> maps (fst (EnsureAtMostOnePodPerNode (example_heap [(''app'', ''apiserver'')] [])
        (example_spec (Some 0) None) ''apiserver'')) 0 =
      [(''app'', ''apiserver''), (''apiserver-anti-affinity'', ''true'')]
   \<and> EnsureAtMostOnePodPerNode (example_heap [(''app'', ''apiserver'')] [])
        (example_spec (Some 0) (Some \<lparr>MatchLabels = Some 1\<rparr>)) ''apiserver'' =
      (assign (example_heap [(''app'', ''apiserver'')] []) 0 ''apiserver-anti-affinity'' ''true'',
       example_spec (Some 0) (Some \<lparr>MatchLabels = Some 1\<rparr>),
       Returned (Some (GoError ''deployment is missing spec.selector.matchLabels'' False)))"
  using label_added_before_validation [where component = "''apiserver''" and l = 0
      and h = "example_heap [(''app'', ''apiserver'')] []"
      and spec = "example_spec (Some 0) None"
      and err = "GoError ''deployment is missing spec.selector'' False"]
    label_added_before_validation [where component = "''apiserver''" and l = 0
      and h = "example_heap [(''app'', ''apiserver'')] []"
      and spec = "example_spec (Some 0) (Some \<lparr>MatchLabels = Some 1\<rparr>)"
      and err = "GoError ''deployment is missing spec.selector.matchLabels'' False"]
  by (simp add: example_spec_def example_heap_def EnsureAtMostOnePodPerNode_def len_def
      entries_def assign_def Let_def)

end
